theory Spec2Isabelle
  imports Complex_Main "HOL-Library.Word"
begin

section \<open>The destination ledger: Vault and StBTC contracts\<close>

text \<open>
  Source: the Vault contract (\<^verbatim>\<open>src/unnamed/part_002\<close>, lines 1-202) and
  \<^verbatim>\<open>src/contracts/StBTC.sol\<close>.  Solidity \<^verbatim>\<open>uint256\<close> is a 256-bit word and
  \<^verbatim>\<open>address\<close> a 160-bit word.  The contracts are compiled with Solidity 0.8, whose
  \<^verbatim>\<open>+\<close> and \<^verbatim>\<open>*\<close> revert on overflow; a revert is the \<open>Inl\<close> branch of the result
  and leaves the state as it was.  Every \<^verbatim>\<open>require\<close> of the source is one constructor of
  \<open>vault_error\<close>, named after its message.
\<close>

type_synonym address = "160 word"
type_synonym uint256 = "256 word"

datatype vault_error =
    OnlyRelayerCanCall
  | PausablePaused
  | InvalidTransactionHash
  | InvalidUserAddress
  | AmountMustBeGreaterThan0
  | UnlockTimeMustBeInFuture
  | UnauthorizedFinalityProvider
  | DepositAlreadyRegistered
  | DepositNotRegistered
  | DepositAlreadyProcessed
  | ArithmeticOverflow
  | NotAuthorized
  | MintToTheZeroAddress


definition checked_add :: "uint256 \<Rightarrow> uint256 \<Rightarrow> vault_error + uint256" where
  "checked_add a b =
     (if unat a + unat b < 2 ^ 256 then Inr (a + b) else Inl ArithmeticOverflow)"

definition checked_mul :: "uint256 \<Rightarrow> uint256 \<Rightarrow> vault_error + uint256" where
  "checked_mul a b =
     (if unat a * unat b < 2 ^ 256 then Inr (a * b) else Inl ArithmeticOverflow)"

subsection \<open>StBTC\<close>

record stbtc_state =
  balances :: "address \<Rightarrow> uint256"
  totalSupply :: uint256
  authorized :: "address \<Rightarrow> bool"
  tk_owner :: address
  tk_paused :: bool

text \<open>
  \<^verbatim>\<open>_mint\<close> is inherited from the OpenZeppelin 4.9 ERC20 base contract, a dependency that
  is not part of this repository: it requires a non-zero account, adds the amount to the
  total supply with a checked addition and to the account's balance with an unchecked one.
\<close>

definition erc20_mint :: "stbtc_state \<Rightarrow> address \<Rightarrow> uint256 \<Rightarrow> vault_error + stbtc_state" where
  "erc20_mint tk account amount =
     (if account = 0 then Inl MintToTheZeroAddress
      else case checked_add (totalSupply tk) amount of
             Inl e \<Rightarrow> Inl e
           | Inr ts \<Rightarrow>
               Inr (tk\<lparr>totalSupply := ts,
                       balances := (balances tk)(account := balances tk account + amount)\<rparr>))"

text \<open>\<^verbatim>\<open>StBTC.mint\<close>: modifiers \<^verbatim>\<open>onlyAuthorized\<close>, then \<^verbatim>\<open>whenNotPaused\<close>.\<close>

definition stbtc_mint ::
  "stbtc_state \<Rightarrow> address \<Rightarrow> address \<Rightarrow> uint256 \<Rightarrow> vault_error + stbtc_state" where
  "stbtc_mint tk sender to amount =
     (if \<not> (authorized tk sender \<or> sender = tk_owner tk) then Inl NotAuthorized
      else if tk_paused tk then Inl PausablePaused
      else erc20_mint tk to amount)"

subsection \<open>Vault\<close>

record BabylonDeposit =
  d_user :: address
  d_amount :: uint256
  d_btcTxHash :: string
  d_unlockTime :: uint256
  d_finalityProvider :: string
  d_timestamp :: uint256
  d_processed :: bool

text \<open>
  A Solidity mapping is total: a key never written reads as the zero value.  \<open>self\<close> is the
  Vault's own address, the \<^verbatim>\<open>msg.sender\<close> of its call to \<^verbatim>\<open>stBTC.mint\<close>.  The
  \<^verbatim>\<open>nonReentrant\<close> guard is not represented: the calls modelled here are top-level
  transactions and the token does not call back.
\<close>

record vault_state =
  deposits :: "string \<Rightarrow> BabylonDeposit"
  userBalances :: "address \<Rightarrow> uint256"
  authorizedFinalityProviders :: "string \<Rightarrow> bool"
  totalDeposits :: uint256
  owner :: address
  paused :: bool
  self :: address
  stBTC :: stbtc_state

text \<open>
  \<^verbatim>\<open>registerBabylonDeposit\<close> (lines 80-105).  \<open>now\<close> is \<^verbatim>\<open>block.timestamp\<close> and
  \<open>sender\<close> is \<^verbatim>\<open>msg.sender\<close>.
\<close>

definition registerBabylonDeposit ::
  "vault_state \<Rightarrow> uint256 \<Rightarrow> address \<Rightarrow> string \<Rightarrow> address \<Rightarrow> uint256 \<Rightarrow> uint256 \<Rightarrow> string
     \<Rightarrow> vault_error + vault_state" where
  "registerBabylonDeposit v now sender btcTxHash user amount unlockTime finalityProvider =
     (if sender \<noteq> owner v then Inl OnlyRelayerCanCall
      else if paused v then Inl PausablePaused
      else if \<not> (length btcTxHash > 0) then Inl InvalidTransactionHash
      else if \<not> (user \<noteq> 0) then Inl InvalidUserAddress
      else if \<not> (amount > 0) then Inl AmountMustBeGreaterThan0
      else if \<not> (unlockTime > now) then Inl UnlockTimeMustBeInFuture
      else if \<not> authorizedFinalityProviders v finalityProvider
        then Inl UnauthorizedFinalityProvider
      else if \<not> (d_timestamp (deposits v btcTxHash) = 0) then Inl DepositAlreadyRegistered
      else Inr (v\<lparr>deposits := (deposits v)(btcTxHash :=
                  \<lparr>d_user = user, d_amount = amount, d_btcTxHash = btcTxHash,
                   d_unlockTime = unlockTime, d_finalityProvider = finalityProvider,
                   d_timestamp = now, d_processed = False\<rparr>)\<rparr>))"

text \<open>\<^verbatim>\<open>mintStBTC\<close> (lines 111-129).\<close>

definition mintStBTC :: "vault_state \<Rightarrow> address \<Rightarrow> string \<Rightarrow> vault_error + vault_state" where
  "mintStBTC v sender btcTxHash =
     (if sender \<noteq> owner v then Inl OnlyRelayerCanCall
      else if paused v then Inl PausablePaused
      else
        let deposit = deposits v btcTxHash in
        if \<not> (d_timestamp deposit > 0) then Inl DepositNotRegistered
        else if d_processed deposit then Inl DepositAlreadyProcessed
        else
          case checked_mul (d_amount deposit) (10 ^ 10) of
            Inl e \<Rightarrow> Inl e
          | Inr tokenAmount \<Rightarrow>
              (case checked_add (userBalances v (d_user deposit)) tokenAmount of
                 Inl e \<Rightarrow> Inl e
               | Inr ub \<Rightarrow>
                   (case checked_add (totalDeposits v) tokenAmount of
                      Inl e \<Rightarrow> Inl e
                    | Inr td \<Rightarrow>
                        (case stbtc_mint (stBTC v) (self v) (d_user deposit) tokenAmount of
                           Inl e \<Rightarrow> Inl e
                         | Inr tk \<Rightarrow>
                             Inr (v\<lparr>deposits := (deposits v)(btcTxHash :=
                                        deposit\<lparr>d_processed := True\<rparr>),
                                    userBalances := (userBalances v)(d_user deposit := ub),
                                    totalDeposits := td,
                                    stBTC := tk\<rparr>)))))"



text \<open>
  The state the constructors leave (Vault lines 61-70; \<^verbatim>\<open>scripts/deploy.js\<close> then
  authorises the Vault on the token): providers \<^verbatim>\<open>fp1\<close> and \<^verbatim>\<open>fp2\<close> authorised, nothing
  deposited, nothing minted.  Used for the concrete scenarios.
\<close>

definition deployed :: "address \<Rightarrow> address \<Rightarrow> vault_state" where
  "deployed deployer vaultAddress =
     \<lparr>deposits = (\<lambda>_. \<lparr>d_user = 0, d_amount = 0, d_btcTxHash = [], d_unlockTime = 0,
                        d_finalityProvider = [], d_timestamp = 0, d_processed = False\<rparr>),
      userBalances = (\<lambda>_. 0),
      authorizedFinalityProviders = (\<lambda>p. p = ''fp1'' \<or> p = ''fp2''),
      totalDeposits = 0,
      owner = deployer,
      paused = False,
      self = vaultAddress,
      stBTC = \<lparr>balances = (\<lambda>_. 0), totalSupply = 0,
               authorized = (\<lambda>a. a = vaultAddress), tk_owner = deployer,
               tk_paused = False\<rparr>\<rparr>"

section \<open>The deposit relay controller\<close>




subsection \<open>Parameter checks\<close>







subsection \<open>One attempt\<close>



subsection \<open>The retry loop\<close>


definition backoffDelay :: "nat \<Rightarrow> nat" where
  "backoffDelay attempt = min (1000 * 2 ^ (attempt - 1)) 10000"



subsection \<open>The Vault as the ledger\<close>



subsection \<open>Auxiliary definitions for the properties of the controller\<close>













section \<open>The staking ledger engine\<close>

text \<open>
  Source: \<^verbatim>\<open>src/relayer/src/babylonWatcher.js\<close>, class \<^verbatim>\<open>BabylonWatcher\<close>.

  A JavaScript number is modelled as a rational and \<^verbatim>\<open>Math.floor\<close> as \<open>floor\<close>: the
  arithmetic of the model is exact, where the source rounds every operation to the nearest
  IEEE-754 double.  The only non-numeric value the modelled code produces is the
  \<^verbatim>\<open>undefined\<close> of a missing \<^verbatim>\<open>timestamp\<close> field (and the \<^verbatim>\<open>NaN\<close> computed from it),
  which is \<open>None\<close>.  \<^verbatim>\<open>Date.now()\<close> is the parameter \<open>nowMs\<close>, read once per call, and
  each \<^verbatim>\<open>Math.random()\<close> is a parameter.

  The two collections are plain JavaScript objects used as dictionaries.  They are
  association lists in insertion order, which is the order \<^verbatim>\<open>for ... in\<close> and
  \<^verbatim>\<open>Object.values\<close> visit string keys in; only own keys are represented (a key such as
  \<^verbatim>\<open>constructor\<close>, which a lookup on a JavaScript object would find on the prototype, is
  outside the model).
\<close>

datatype severity = Minor | Major

datatype position_status = Active | Unbonding | Closed

record slashing_event =
  se_amount :: rat
  se_reason :: string
  se_severity :: severity
  se_timestamp :: int
  se_affectedDelegators :: "nat option"

record finality_provider =
  fp_id :: string
  fp_commission :: rat
  fp_name :: string
  fp_reputation :: rat
  fp_uptime :: rat
  fp_totalDelegated :: rat
  fp_delegatorCount :: nat
  fp_votingPower :: int
  fp_slashingHistory :: "slashing_event list"
  fp_rewardsDistributed :: rat
  fp_commissionEarned :: rat
  fp_isActive :: bool
  fp_joinedEpoch :: nat
  fp_maxDelegation :: rat
  fp_selfStake :: rat

record reward_info =
  accumulated :: rat
  lastDistribution :: int
  annualRate :: rat

record slashing_info =
  penaltyAmount :: rat
  slashingEvents :: "slashing_event list"

text \<open>
  \<open>pos_timestamp\<close> is the field \<^verbatim>\<open>timestamp\<close> (milliseconds), which
  \<^verbatim>\<open>createStakingPosition\<close> sets and \<^verbatim>\<open>processBabylonDepositWithSimulation\<close> does not.
\<close>

record staking_position =
  pos_txHash :: string
  pos_stakerAddress :: "string option"
  pos_amount :: rat
  pos_finalityProvider :: string
  pos_timestamp :: "int option"
  pos_unlockTime :: int
  pos_votingPower :: int
  pos_status :: position_status
  pos_rewards :: reward_info
  pos_slashing :: slashing_info
  pos_delegationTime :: int
  pos_isUnbonding :: bool

record network_stats =
  ns_totalStaked :: rat
  ns_totalDelegators :: nat
  ns_activeFinality :: nat
  ns_averageCommission :: rat
  ns_totalRewardsDistributed :: rat
  ns_totalSlashed :: rat
  ns_networkUptime :: rat
  ns_lastEpochBlock :: nat
  ns_currentEpoch :: nat

record staking_params =
  slashingRate :: rat
  baseRewardRate :: rat

record watcher =
  finalityProviders :: "(string \<times> finality_provider) list"
  activeStakers :: "(string \<times> staking_position) list"
  networkStats :: network_stats
  stakingParams :: staking_params
  currentEpoch :: nat

text \<open>\<^verbatim>\<open>obj[k]\<close> and \<^verbatim>\<open>obj[k] = v\<close> on an object used as a dictionary.\<close>

definition obj_get :: "(string \<times> 'a) list \<Rightarrow> string \<Rightarrow> 'a option" where
  "obj_get obj k = map_of obj k"

fun obj_set :: "(string \<times> 'a) list \<Rightarrow> string \<Rightarrow> 'a \<Rightarrow> (string \<times> 'a) list" where
  "obj_set [] k v = [(k, v)]"
| "obj_set ((k', v') # rest) k v =
     (if k' = k then (k, v) # rest else (k', v') # obj_set rest k v)"

subsection \<open>Construction\<close>

text \<open>\<^verbatim>\<open>enhanceFinalityProviders\<close> (lines 213-290): the three seed providers.\<close>

definition seedProvider :: "string \<Rightarrow> string \<Rightarrow> rat \<Rightarrow> rat \<Rightarrow> rat \<Rightarrow> nat \<Rightarrow> rat \<Rightarrow> rat
    \<Rightarrow> finality_provider" where
  "seedProvider i n c r u e m ss =
     \<lparr>fp_id = i, fp_commission = c, fp_name = n, fp_reputation = r, fp_uptime = u,
      fp_totalDelegated = 0, fp_delegatorCount = 0, fp_votingPower = 0,
      fp_slashingHistory = [], fp_rewardsDistributed = 0, fp_commissionEarned = 0,
      fp_isActive = True, fp_joinedEpoch = e, fp_maxDelegation = m, fp_selfStake = ss\<rparr>"

definition enhancedProviders :: "finality_provider list" where
  "enhancedProviders =
     [seedProvider ''fp1'' ''Babylon Finality Provider Alpha'' (5 / 100) 95 99 1
        50000000000000 1000000000,
      seedProvider ''fp2'' ''Babylon Finality Provider Beta'' (3 / 100) 92 97 1
        30000000000000 500000000,
      seedProvider ''fp3'' ''Babylon Finality Provider Gamma'' (8 / 100) 88 95 2
        20000000000000 200000000]"

definition enhanceFinalityProviders :: "watcher \<Rightarrow> watcher" where
  "enhanceFinalityProviders s =
     s\<lparr>finalityProviders := foldl (\<lambda>obj fp. obj_set obj (fp_id fp) fp) [] enhancedProviders\<rparr>"

text \<open>
  The constructor (lines 19-78).  \<^verbatim>\<open>activeFinality\<close> is computed from the still empty
  provider object, so it starts at 0.
\<close>

definition newWatcher :: watcher where
  "newWatcher =
     enhanceFinalityProviders
       \<lparr>finalityProviders = [],
        activeStakers = [],
        networkStats =
          \<lparr>ns_totalStaked = 0, ns_totalDelegators = 0, ns_activeFinality = 0,
           ns_averageCommission = 0, ns_totalRewardsDistributed = 0, ns_totalSlashed = 0,
           ns_networkUptime = 100, ns_lastEpochBlock = 0, ns_currentEpoch = 1\<rparr>,
        stakingParams = \<lparr>slashingRate = 5 / 100, baseRewardRate = 6 / 100\<rparr>,
        currentEpoch = 1\<rparr>"

subsection \<open>Voting power and rewards\<close>

text \<open>\<^verbatim>\<open>calculateVotingPowerBasic\<close> (lines 444-448).\<close>

definition calculateVotingPowerBasic :: "rat \<Rightarrow> int" where
  "calculateVotingPowerBasic amount =
     (let basePower = amount / 100000000; timeBonus = 1 in
      \<lfloor>basePower * timeBonus * 1000\<rfloor>)"

text \<open>\<^verbatim>\<open>calculateVotingPower\<close> (lines 414-427); \<open>None\<close> is a missing provider.\<close>

definition calculateVotingPower :: "rat \<Rightarrow> finality_provider option \<Rightarrow> int" where
  "calculateVotingPower amount provider =
     (case provider of
        None \<Rightarrow> calculateVotingPowerBasic amount
      | Some p \<Rightarrow>
          (let basePower = amount / 100000000;
               reputationMultiplier = fp_reputation p / 100;
               uptimeMultiplier = fp_uptime p / 100
           in \<lfloor>basePower * reputationMultiplier * uptimeMultiplier * 1000\<rfloor>))"

text \<open>\<^verbatim>\<open>calculateFinalityProviderVotingPower\<close> (lines 432-439).\<close>

definition calculateFinalityProviderVotingPower :: "finality_provider \<Rightarrow> int" where
  "calculateFinalityProviderVotingPower fp =
     \<lfloor>(fp_totalDelegated fp / 100000000) * (fp_reputation fp / 100) * (fp_uptime fp / 100)
        * 1000\<rfloor>"

text \<open>
  \<^verbatim>\<open>calculateRewards\<close> (lines 453-472).  The elapsed time is measured from the position's
  \<^verbatim>\<open>timestamp\<close> field; \<open>timeRatio\<close> is the source's local of that name, and
  \<open>365.25 * 24 * 3600 * 1000 = 31557600000\<close>.  The result \<open>None\<close> is \<^verbatim>\<open>NaN\<close>.
\<close>

definition timeRatio :: "int \<Rightarrow> staking_position \<Rightarrow> rat option" where
  "timeRatio nowMs position =
     (case pos_timestamp position of
        None \<Rightarrow> None
      | Some ts \<Rightarrow> Some (of_int (nowMs - ts) / 31557600000))"

definition performanceMultiplier :: "finality_provider option \<Rightarrow> rat" where
  "performanceMultiplier fp =
     (case fp of
        None \<Rightarrow> 1
      | Some p \<Rightarrow> 1 * (fp_reputation p / 100) * max (8 / 10) (fp_uptime p / 100))"

definition calculateRewards :: "watcher \<Rightarrow> int \<Rightarrow> staking_position \<Rightarrow> int option" where
  "calculateRewards s nowMs position =
     (case timeRatio nowMs position of
        None \<Rightarrow> None
      | Some tr \<Rightarrow>
          (let baseRewards = pos_amount position * baseRewardRate (stakingParams s) * tr;
               multiplier =
                 performanceMultiplier
                   (obj_get (finalityProviders s) (pos_finalityProvider position))
           in Some \<lfloor>baseRewards * multiplier\<rfloor>))"

subsection \<open>Creating a position\<close>

text \<open>
  \<^verbatim>\<open>createStakingPosition\<close> (lines 365-409).  The transaction carries a list of outputs;
  reading \<^verbatim>\<open>vout[0].value\<close> of a transaction without outputs throws a \<^verbatim>\<open>TypeError\<close>.
  The method does not call \<^verbatim>\<open>updateNetworkStats\<close>.

  The other way to a position, \<^verbatim>\<open>processBabylonDepositWithSimulation\<close> (lines 295-360),
  calls \<^verbatim>\<open>updateFinalityProviderDelegation\<close>, \<^verbatim>\<open>recordDelegationEvent\<close> and
  \<^verbatim>\<open>logStakingPosition\<close>, none of which the class defines; it has no counterpart here.
\<close>

datatype js_error = TypeError

record tx_output =
  out_value :: rat
  out_addresses :: "string list"

record mock_tx =
  txid :: string
  vout :: "tx_output list"

definition createStakingPosition ::
  "watcher \<Rightarrow> int \<Rightarrow> mock_tx \<Rightarrow> string \<Rightarrow> js_error + (staking_position \<times> watcher)" where
  "createStakingPosition s nowMs mockTx finalityProvider =
     (case vout mockTx of
        [] \<Rightarrow> Inl TypeError
      | out # _ \<Rightarrow>
          (let amount = out_value out;
               stakingPosition =
                 \<lparr>pos_txHash = txid mockTx,
                  pos_stakerAddress =
                    (case out_addresses out of [] \<Rightarrow> None | a # _ \<Rightarrow> Some a),
                  pos_amount = amount,
                  pos_finalityProvider = finalityProvider,
                  pos_timestamp = Some nowMs,
                  pos_unlockTime = nowMs div 1000 + 86400 * 30,
                  pos_votingPower =
                    calculateVotingPower amount
                      (obj_get (finalityProviders s) finalityProvider),
                  pos_status = Active,
                  pos_rewards =
                    \<lparr>accumulated = 0, lastDistribution = nowMs div 1000,
                     annualRate = baseRewardRate (stakingParams s)\<rparr>,
                  pos_slashing = \<lparr>penaltyAmount = 0, slashingEvents = []\<rparr>,
                  pos_delegationTime = nowMs div 1000,
                  pos_isUnbonding = False\<rparr>;
               stakers = obj_set (activeStakers s) (txid mockTx) stakingPosition;
               providers =
                 (case obj_get (finalityProviders s) finalityProvider of
                    None \<Rightarrow> finalityProviders s
                  | Some fp \<Rightarrow>
                      (let fp1 = fp\<lparr>fp_totalDelegated := fp_totalDelegated fp + amount,
                                    fp_delegatorCount := fp_delegatorCount fp + 1\<rparr>
                       in obj_set (finalityProviders s) finalityProvider
                            (fp1\<lparr>fp_votingPower :=
                                   calculateFinalityProviderVotingPower fp1\<rparr>)))
           in Inr (stakingPosition,
                   s\<lparr>activeStakers := stakers, finalityProviders := providers\<rparr>)))"

subsection \<open>Network statistics\<close>

text \<open>
  \<^verbatim>\<open>updateNetworkStats\<close> (lines 493-529).  \<open>stakedLoop\<close> is the \<^verbatim>\<open>for ... in\<close> loop
  over the positions with its two accumulators; the two \<^verbatim>\<open>reduce\<close> calls are left folds
  from 0.  The network uptime is written only when there is an active provider.
\<close>

fun stakedLoop :: "(string \<times> staking_position) list \<Rightarrow> rat \<Rightarrow> nat \<Rightarrow> rat \<times> nat" where
  "stakedLoop [] totalStaked totalDelegators = (totalStaked, totalDelegators)"
| "stakedLoop ((txHash, position) # rest) totalStaked totalDelegators =
     (if pos_status position = Active
      then stakedLoop rest (totalStaked + pos_amount position) (totalDelegators + 1)
      else stakedLoop rest totalStaked totalDelegators)"

definition updateNetworkStats :: "watcher \<Rightarrow> watcher" where
  "updateNetworkStats s =
     (let (totalStaked, totalDelegators) = stakedLoop (activeStakers s) 0 0;
          activeProviders = filter fp_isActive (map snd (finalityProviders s));
          averageCommission =
            (if length activeProviders > 0
             then foldl (\<lambda>sum fp. sum + fp_commission fp) 0 activeProviders
                    / of_nat (length activeProviders)
             else 0);
          ns = (networkStats s)
                 \<lparr>ns_totalStaked := totalStaked,
                  ns_totalDelegators := totalDelegators,
                  ns_activeFinality := length activeProviders,
                  ns_averageCommission := averageCommission\<rparr>
      in s\<lparr>networkStats :=
             (if length activeProviders > 0
              then ns\<lparr>ns_networkUptime :=
                        foldl (\<lambda>sum fp. sum + fp_uptime fp) 0 activeProviders
                          / of_nat (length activeProviders)\<rparr>
              else ns)\<rparr>)"

subsection \<open>Epoch update\<close>

text \<open>
  \<^verbatim>\<open>updateProviderPerformance\<close> (lines 534-552).  \<open>providerPerformance r\<close> is the loop
  body for one provider, \<open>r\<close> being its \<^verbatim>\<open>Math.random()\<close> draw; \<open>rnd i\<close> is the draw of
  the \<open>i\<close>-th provider visited.
\<close>

definition providerPerformance :: "rat \<Rightarrow> finality_provider \<Rightarrow> finality_provider" where
  "providerPerformance r fp =
     (let uptimeChange = (r - 1 / 2) * 2;
          up = max 90 (min 100 (fp_uptime fp + uptimeChange));
          fp1 = fp\<lparr>fp_uptime := up\<rparr>;
          fp2 = (if up > 98
                 then fp1\<lparr>fp_reputation := min 100 (fp_reputation fp1 + 1 / 10)\<rparr>
                 else if up < 95
                 then fp1\<lparr>fp_reputation := max 10 (fp_reputation fp1 - 1 / 2)\<rparr>
                 else fp1)
      in fp2\<lparr>fp_votingPower := calculateFinalityProviderVotingPower fp2\<rparr>)"

fun performanceLoop ::
  "(nat \<Rightarrow> rat) \<Rightarrow> nat \<Rightarrow> (string \<times> finality_provider) list
     \<Rightarrow> (string \<times> finality_provider) list" where
  "performanceLoop rnd i [] = []"
| "performanceLoop rnd i ((fpId, fp) # rest) =
     (fpId, providerPerformance (rnd i) fp) # performanceLoop rnd (Suc i) rest"

definition updateProviderPerformance :: "(nat \<Rightarrow> rat) \<Rightarrow> watcher \<Rightarrow> watcher" where
  "updateProviderPerformance rnd s =
     s\<lparr>finalityProviders := performanceLoop rnd 0 (finalityProviders s)\<rparr>"

text \<open>\<^verbatim>\<open>updateEpoch\<close> (lines 477-488).\<close>

definition updateEpoch :: "(nat \<Rightarrow> rat) \<Rightarrow> watcher \<Rightarrow> watcher" where
  "updateEpoch rnd s =
     (let s1 = s\<lparr>currentEpoch := currentEpoch s + 1\<rparr>;
          s2 = s1\<lparr>networkStats :=
                    (networkStats s1)\<lparr>ns_currentEpoch := currentEpoch s1\<rparr>\<rparr>
      in updateNetworkStats (updateProviderPerformance rnd s2))"

subsection \<open>Slashing\<close>

text \<open>
  \<^verbatim>\<open>executeSlashing\<close> (lines 557-617).  \<open>draw\<close> is the \<^verbatim>\<open>Math.random()\<close> value that
  decides the severity.  \<open>slashLoop\<close> is the loop over the positions with its accumulator
  \<^verbatim>\<open>totalSlashed\<close>; \<open>slashPosition\<close> is what the loop body does to a position it selects.
  The method returns early, before any mutation, when the provider lookup finds nothing;
  it does not call \<^verbatim>\<open>updateNetworkStats\<close> and does not recompute the voting power.
\<close>

definition slashPosition ::
  "rat \<Rightarrow> severity \<Rightarrow> string \<Rightarrow> int \<Rightarrow> staking_position \<Rightarrow> staking_position" where
  "slashPosition rate sev reason currentTime position =
     (let slashingAmount = of_int \<lfloor>pos_amount position * rate\<rfloor> in
      position
        \<lparr>pos_amount := pos_amount position - slashingAmount,
         pos_slashing :=
           \<lparr>penaltyAmount = penaltyAmount (pos_slashing position) + slashingAmount,
            slashingEvents = slashingEvents (pos_slashing position) @
              [\<lparr>se_amount = slashingAmount, se_reason = reason, se_severity = sev,
                se_timestamp = currentTime, se_affectedDelegators = None\<rparr>]\<rparr>\<rparr>)"

fun slashLoop ::
  "string \<Rightarrow> rat \<Rightarrow> severity \<Rightarrow> string \<Rightarrow> int \<Rightarrow> (string \<times> staking_position) list \<Rightarrow> rat
     \<Rightarrow> (string \<times> staking_position) list \<times> rat" where
  "slashLoop fpId rate sev reason currentTime [] totalSlashed = ([], totalSlashed)"
| "slashLoop fpId rate sev reason currentTime ((txHash, position) # rest) totalSlashed =
     (if pos_finalityProvider position = fpId \<and> pos_status position = Active
      then
        (let (rest', total') =
               slashLoop fpId rate sev reason currentTime rest
                 (totalSlashed + of_int \<lfloor>pos_amount position * rate\<rfloor>)
         in ((txHash, slashPosition rate sev reason currentTime position) # rest', total'))
      else
        (let (rest', total') = slashLoop fpId rate sev reason currentTime rest totalSlashed
         in ((txHash, position) # rest', total')))"

definition executeSlashing :: "watcher \<Rightarrow> int \<Rightarrow> rat \<Rightarrow> string \<Rightarrow> string \<Rightarrow> watcher" where
  "executeSlashing s nowMs draw fpId reason =
     (case obj_get (finalityProviders s) fpId of
        None \<Rightarrow> s
      | Some fp \<Rightarrow>
          (let sev = (if draw > 7 / 10 then Major else Minor);
               rate = (if sev = Major then slashingRate (stakingParams s)
                       else slashingRate (stakingParams s) * (1 / 2));
               currentTime = nowMs div 1000;
               (stakers, totalSlashed) =
                 slashLoop fpId rate sev reason currentTime (activeStakers s) 0;
               fp' = fp\<lparr>fp_totalDelegated := fp_totalDelegated fp - totalSlashed,
                        fp_reputation := max 10 (fp_reputation fp - 10),
                        fp_slashingHistory := fp_slashingHistory fp @
                          [\<lparr>se_amount = totalSlashed, se_reason = reason,
                            se_severity = sev, se_timestamp = currentTime,
                            se_affectedDelegators = Some (length (activeStakers s))\<rparr>]\<rparr>
           in s\<lparr>activeStakers := stakers,
                 finalityProviders := obj_set (finalityProviders s) fpId fp',
                 networkStats :=
                   (networkStats s)
                     \<lparr>ns_totalSlashed := ns_totalSlashed (networkStats s) + totalSlashed\<rparr>\<rparr>))"

subsection \<open>Reward distribution\<close>

text \<open>
  \<^verbatim>\<open>distributeStakingRewards\<close> (lines 622-668).  \<open>rewardLoop\<close> is the loop over the
  positions; it carries the provider object (whose \<^verbatim>\<open>commissionEarned\<close> it updates) and
  the accumulator \<^verbatim>\<open>totalRewardsDistributed\<close>.  The local
  \<^verbatim>\<open>timeSinceLastDistribution\<close> is computed and never read, so it has no counterpart
  here.  A position is touched only when its computed reward is greater than 0; the
  comparison is false for \<^verbatim>\<open>NaN\<close>.
\<close>

definition creditCommission ::
  "(string \<times> finality_provider) list \<Rightarrow> string \<Rightarrow> int
     \<Rightarrow> (string \<times> finality_provider) list" where
  "creditCommission providers fpId rewardAmount =
     (case obj_get providers fpId of
        None \<Rightarrow> providers
      | Some fp \<Rightarrow>
          (let commission = \<lfloor>of_int rewardAmount * fp_commission fp\<rfloor>
           in obj_set providers fpId
                (fp\<lparr>fp_commissionEarned := fp_commissionEarned fp + of_int commission\<rparr>)))"

definition rewardPosition :: "int \<Rightarrow> int \<Rightarrow> staking_position \<Rightarrow> staking_position" where
  "rewardPosition rewardAmount currentTime position =
     position\<lparr>pos_rewards :=
       (pos_rewards position)
         \<lparr>accumulated := accumulated (pos_rewards position) + of_int rewardAmount,
          lastDistribution := currentTime\<rparr>\<rparr>"

fun rewardLoop ::
  "watcher \<Rightarrow> int \<Rightarrow> (string \<times> staking_position) list
     \<Rightarrow> (string \<times> finality_provider) list \<Rightarrow> rat
     \<Rightarrow> (string \<times> staking_position) list \<times> (string \<times> finality_provider) list \<times> rat" where
  "rewardLoop s nowMs [] providers distributed = ([], providers, distributed)"
| "rewardLoop s nowMs ((txHash, position) # rest) providers distributed =
     (if pos_status position = Active \<and> \<not> pos_isUnbonding position
      then
        (case calculateRewards (s\<lparr>finalityProviders := providers\<rparr>) nowMs position of
           None \<Rightarrow>
             (let (rest', providers', distributed') = rewardLoop s nowMs rest providers distributed
              in ((txHash, position) # rest', providers', distributed'))
         | Some rewardAmount \<Rightarrow>
             (if rewardAmount > 0
              then
                (let (rest', providers', distributed') =
                       rewardLoop s nowMs rest
                         (creditCommission providers (pos_finalityProvider position)
                            rewardAmount)
                         (distributed + of_int rewardAmount)
                 in ((txHash, rewardPosition rewardAmount (nowMs div 1000) position) # rest',
                     providers', distributed'))
              else
                (let (rest', providers', distributed') = rewardLoop s nowMs rest providers distributed
                 in ((txHash, position) # rest', providers', distributed'))))
      else
        (let (rest', providers', distributed') = rewardLoop s nowMs rest providers distributed
         in ((txHash, position) # rest', providers', distributed')))"

definition distributeStakingRewards :: "watcher \<Rightarrow> int \<Rightarrow> watcher" where
  "distributeStakingRewards s nowMs =
     (let (stakers, providers, totalRewardsDistributed) =
            rewardLoop s nowMs (activeStakers s) (finalityProviders s) 0
      in s\<lparr>activeStakers := stakers,
            finalityProviders := providers,
            networkStats :=
              (networkStats s)
                \<lparr>ns_totalRewardsDistributed :=
                   ns_totalRewardsDistributed (networkStats s) + totalRewardsDistributed\<rparr>\<rparr>)"

subsection \<open>Sequences of engine steps\<close>

text \<open>
  The timers and the tests drive the engine through these three methods; a history of the
  engine is a list of such calls with their clock readings and random draws.
\<close>

datatype engine_step =
    Slashing int rat string string
  | EpochUpdate "nat \<Rightarrow> rat"
  | RewardDistribution int

fun engineStep :: "watcher \<Rightarrow> engine_step \<Rightarrow> watcher" where
  "engineStep s (Slashing nowMs draw fpId reason) = executeSlashing s nowMs draw fpId reason"
| "engineStep s (EpochUpdate rnd) = updateEpoch rnd s"
| "engineStep s (RewardDistribution nowMs) = distributeStakingRewards s nowMs"

definition runEngine :: "watcher \<Rightarrow> engine_step list \<Rightarrow> watcher" where
  "runEngine s steps = foldl engineStep s steps"

subsection \<open>Auxiliary definitions for the properties\<close>

text \<open>
  \<open>slashSelected\<close> is one iteration of the slashing loop, guard included.  The predicates
  name the two invariants of the data model.  \<open>created\<close> is \<^verbatim>\<open>createStakingPosition\<close>
  seen as a state change (a call that throws has mutated nothing).  \<open>scenarioD\<close> is the state
  the test suite's slashing tests start from: a new watcher and one position of
  100,000,000 delegated to \<^verbatim>\<open>fp1\<close>.
\<close>

definition slashSelected :: "string \<Rightarrow> rat \<Rightarrow> severity \<Rightarrow> string \<Rightarrow> int \<Rightarrow> staking_position \<Rightarrow> staking_position" where
  "slashSelected fpId rate sev reason currentTime position =
     (if pos_finalityProvider position = fpId \<and> pos_status position = Active
      then slashPosition rate sev reason currentTime position else position)"

definition withinBounds :: "finality_provider \<Rightarrow> bool" where
  "withinBounds fp \<longleftrightarrow>
     10 \<le> fp_reputation fp \<and> fp_reputation fp \<le> 100 \<and> 90 \<le> fp_uptime fp \<and> fp_uptime fp \<le> 100"

definition allWithinBounds :: "(string \<times> finality_provider) list \<Rightarrow> bool" where
  "allWithinBounds fps \<longleftrightarrow> (\<forall>(k, fp) \<in> set fps. withinBounds fp)"

definition amountsNonneg :: "(string \<times> staking_position) list \<Rightarrow> bool" where
  "amountsNonneg ps \<longleftrightarrow> (\<forall>(k, p) \<in> set ps. 0 \<le> pos_amount p)"

definition created :: "watcher \<Rightarrow> int \<Rightarrow> mock_tx \<Rightarrow> string \<Rightarrow> watcher" where
  "created s nowMs mockTx finalityProvider =
     (case createStakingPosition s nowMs mockTx finalityProvider of
        Inl e \<Rightarrow> s
      | Inr (position, s') \<Rightarrow> s')"

definition slashingTestTx :: mock_tx where
  "slashingTestTx =
     \<lparr>txid = ''slashing_test_1'',
      vout = [\<lparr>out_value = 100000000, out_addresses = [''bc1qslash'']\<rparr>]\<rparr>"

definition scenarioD :: watcher where
  "scenarioD = created newWatcher 0 slashingTestTx ''fp1''"

definition amountOf :: "watcher \<Rightarrow> string \<Rightarrow> rat option" where
  "amountOf s txHash = map_option pos_amount (obj_get (activeStakers s) txHash)"

definition reputationOf :: "watcher \<Rightarrow> string \<Rightarrow> rat option" where
  "reputationOf s fpId = map_option fp_reputation (obj_get (finalityProviders s) fpId)"


definition amountNonnegOf :: "watcher \<Rightarrow> string \<Rightarrow> bool option" where
  "amountNonnegOf s txHash = map_option (\<lambda>p. 0 \<le> pos_amount p) (obj_get (activeStakers s) txHash)"

definition withinBoundsOf :: "watcher \<Rightarrow> string \<Rightarrow> bool option" where
  "withinBoundsOf s fpId = map_option withinBounds (obj_get (finalityProviders s) fpId)"







text \<open>
  The statistics as recomputed from the live collections, in the specification's words:
  total staked is the sum of the active positions' amounts, total delegators their number,
  active finality the number of active providers, average commission and network uptime
  the averages over the active providers.  Without an active provider there is nothing
  to average: the source then writes 0 for the commission and leaves the uptime as it was.
\<close>

definition statsRecomputed :: "watcher \<Rightarrow> bool" where
  "statsRecomputed s \<longleftrightarrow>
     (let active = filter (\<lambda>p. pos_status p = Active) (map snd (activeStakers s));
          providers = filter fp_isActive (map snd (finalityProviders s));
          ns = networkStats s
      in ns_totalStaked ns = sum_list (map pos_amount active)
       \<and> ns_totalDelegators ns = length active
       \<and> ns_activeFinality ns = length providers
       \<and> ns_averageCommission ns =
           (if providers = [] then 0
            else sum_list (map fp_commission providers) / of_nat (length providers))
       \<and> ns_networkUptime ns =
           (if providers = [] then ns_networkUptime ns
            else sum_list (map fp_uptime providers) / of_nat (length providers)))"

definition providerStatsView :: "finality_provider \<Rightarrow> bool \<times> rat \<times> rat" where
  "providerStatsView fp = (fp_isActive fp, fp_commission fp, fp_uptime fp)"

definition scenarioPosition :: staking_position where
  "scenarioPosition =
     \<lparr>pos_txHash = ''slashing_test_1'', pos_stakerAddress = Some ''bc1qslash'',
      pos_amount = 100000000, pos_finalityProvider = ''fp1'', pos_timestamp = Some 0,
      pos_unlockTime = 2592000, pos_votingPower = 940, pos_status = Active,
      pos_rewards = \<lparr>accumulated = 0, lastDistribution = 0, annualRate = 6 / 100\<rparr>,
      pos_slashing = \<lparr>penaltyAmount = 0, slashingEvents = []\<rparr>,
      pos_delegationTime = 0, pos_isUnbonding = False\<rparr>"

section \<open>Properties of the Vault\<close>

lemma checked_mul_sats:
  "unat amount * 10 ^ 10 < 2 ^ 256 \<Longrightarrow> checked_mul amount (10 ^ 10) = Inr (amount * 10 ^ 10)"
  by (simp add: checked_mul_def)

lemma relay_ceiling_fits:
  fixes amount :: uint256
  shows "unat amount \<le> 21000000 * 100000000 \<Longrightarrow> unat amount * 10 ^ 10 < 2 ^ 256"
  by simp

lemma unat_token_amount:
  fixes amount :: uint256
  assumes "unat amount * 10 ^ 10 < 2 ^ 256"
  shows "unat (amount * 10 ^ 10) = unat amount * 10 ^ 10"
proof -
  have b: "unat (10 ^ 10 :: uint256) = 10 ^ 10" by simp
  have "unat amount * (10 ^ 10 :: nat) < 2 ^ LENGTH(256)"
    using assms by simp
  then have "unat amount * unat (10 ^ 10 :: uint256) < 2 ^ LENGTH(256)"
    by (simp only: b)
  then have "unat (amount * 10 ^ 10) = unat amount * unat (10 ^ 10 :: uint256)"
    by (rule iffD1 [OF unat_mult_lem])
  then show ?thesis by (simp only: b)
qed

text \<open>
  Claim C1.  On a Vault called by its relayer (the owner) while not paused, whose token
  accepts the Vault as minter, a deposit with a non-empty transaction id, a non-zero user,
  a positive amount, an unlock time in the future and an authorised provider, not yet
  registered: register succeeds, the following mint succeeds, the stored deposit is then
  processed, the token contract credits the user with exactly \<open>amount * 10^10\<close> units
  (the product does not wrap), no other transaction id's deposit changes, every further
  registration of the same id fails (with \<^verbatim>\<open>Deposit already registered\<close> when its
  other parameters are valid) and a second mint fails with
  \<^verbatim>\<open>Deposit already processed\<close>.  The three bounds on the running totals say that
  the checked arithmetic of \<^verbatim>\<open>mintStBTC\<close> does not overflow; for an amount within
  the relay's ceiling the product itself always fits (\<open>relay_ceiling_fits\<close>).  The block
  timestamp is positive, as on any chain: the contract reads a zero timestamp as "not
  registered".
\<close>

theorem register_then_mint_once:
  assumes caller: "sender = owner v" "\<not> paused v"
    and params: "btcTxHash \<noteq> []" "user \<noteq> 0" "0 < amount" "now < unlockTime"
      "authorizedFinalityProviders v fp"
    and fresh: "d_timestamp (deposits v btcTxHash) = 0"
    and clock: "0 < now"
    and token: "authorized (stBTC v) (self v) \<or> self v = tk_owner (stBTC v)"
      "\<not> tk_paused (stBTC v)"
    and room: "unat (userBalances v user) + unat amount * 10 ^ 10 < 2 ^ 256"
      "unat (totalDeposits v) + unat amount * 10 ^ 10 < 2 ^ 256"
      "unat (totalSupply (stBTC v)) + unat amount * 10 ^ 10 < 2 ^ 256"
  shows "\<exists>v1 v2.
      registerBabylonDeposit v now sender btcTxHash user amount unlockTime fp = Inr v1
    \<and> mintStBTC v1 sender btcTxHash = Inr v2
    \<and> d_processed (deposits v2 btcTxHash)
    \<and> d_user (deposits v2 btcTxHash) = user
    \<and> d_amount (deposits v2 btcTxHash) = amount
    \<and> balances (stBTC v2) user = balances (stBTC v) user + amount * 10 ^ 10
    \<and> unat (amount * 10 ^ 10) = unat amount * 10 ^ 10
    \<and> (\<forall>t. t \<noteq> btcTxHash \<longrightarrow> deposits v2 t = deposits v t)
    \<and> (\<forall>n u a ul p. isl (registerBabylonDeposit v1 n sender btcTxHash u a ul p))
    \<and> (\<forall>n u a ul p. isl (registerBabylonDeposit v2 n sender btcTxHash u a ul p))
    \<and> (\<forall>n. n < unlockTime \<longrightarrow>
          registerBabylonDeposit v2 n sender btcTxHash user amount unlockTime fp
            = Inl DepositAlreadyRegistered)
    \<and> mintStBTC v2 sender btcTxHash = Inl DepositAlreadyProcessed"
proof -
  let ?d = "\<lparr>d_user = user, d_amount = amount, d_btcTxHash = btcTxHash,
             d_unlockTime = unlockTime, d_finalityProvider = fp,
             d_timestamp = now, d_processed = False\<rparr>"
  let ?v1 = "v\<lparr>deposits := (deposits v)(btcTxHash := ?d)\<rparr>"
  let ?tok = "amount * 10 ^ 10"
  have reg: "registerBabylonDeposit v now sender btcTxHash user amount unlockTime fp = Inr ?v1"
    using caller params fresh by (simp add: registerBabylonDeposit_def)
  have fit: "unat amount * 10 ^ 10 < 2 ^ 256"
    using room(1) by simp
  have tok: "unat ?tok = unat amount * 10 ^ 10"
    using fit by (rule unat_token_amount)
  have mul: "checked_mul amount (10 ^ 10) = Inr ?tok"
    using fit by (rule checked_mul_sats)
  have a1: "checked_add (userBalances v user) ?tok = Inr (userBalances v user + ?tok)"
    using room(1) tok by (simp add: checked_add_def)
  have a2: "checked_add (totalDeposits v) ?tok = Inr (totalDeposits v + ?tok)"
    using room(2) tok by (simp add: checked_add_def)
  have a3: "checked_add (totalSupply (stBTC v)) ?tok = Inr (totalSupply (stBTC v) + ?tok)"
    using room(3) tok by (simp add: checked_add_def)
  let ?tk = "(stBTC v)\<lparr>totalSupply := totalSupply (stBTC v) + ?tok,
               balances := (balances (stBTC v))(user := balances (stBTC v) user + ?tok)\<rparr>"
  have tk: "stbtc_mint (stBTC v) (self v) user ?tok = Inr ?tk"
    using token params(2) a3 by (auto simp add: stbtc_mint_def erc20_mint_def)
  let ?v2 = "?v1\<lparr>deposits := (deposits ?v1)(btcTxHash := ?d\<lparr>d_processed := True\<rparr>),
                userBalances := (userBalances v)(user := userBalances v user + ?tok),
                totalDeposits := totalDeposits v + ?tok,
                stBTC := ?tk\<rparr>"
  have pos: "0 < now" by (rule clock)
  have mint: "mintStBTC ?v1 sender btcTxHash = Inr ?v2"
    using caller pos mul a1 a2 tk by (simp add: mintStBTC_def Let_def)
  have nz: "now \<noteq> 0" using pos by (simp add: word_neq_0_conv)
  have dup1: "\<forall>n u a ul p. isl (registerBabylonDeposit ?v1 n sender btcTxHash u a ul p)"
    using nz by (simp add: registerBabylonDeposit_def)
  have dup2: "\<forall>n u a ul p. isl (registerBabylonDeposit ?v2 n sender btcTxHash u a ul p)"
    using nz by (simp add: registerBabylonDeposit_def)
  have dup3: "\<forall>n. n < unlockTime \<longrightarrow>
          registerBabylonDeposit ?v2 n sender btcTxHash user amount unlockTime fp
            = Inl DepositAlreadyRegistered"
    using nz caller params by (simp add: registerBabylonDeposit_def)
  have again: "mintStBTC ?v2 sender btcTxHash = Inl DepositAlreadyProcessed"
    using caller pos by (simp add: mintStBTC_def Let_def)
  show ?thesis
    apply (rule exI [of _ ?v1], rule exI [of _ ?v2])
    using reg mint tok dup1 dup2 dup3 again by simp
qed


text \<open>
  Scenario A on the freshly deployed contracts: amount 250,000,000 mints
  2,500,000,000,000,000,000 units.
\<close>

theorem register_then_mint_once_witness:
  "\<exists>v1 v2.
      registerBabylonDeposit (deployed 1 2) 1000 1 ''test_tx'' 5 250000000 87400 ''fp1'' = Inr v1
    \<and> mintStBTC v1 1 ''test_tx'' = Inr v2
    \<and> d_processed (deposits v2 ''test_tx'')
    \<and> d_user (deposits v2 ''test_tx'') = 5
    \<and> balances (stBTC v2) 5 = 2500000000000000000
    \<and> registerBabylonDeposit v2 2000 1 ''test_tx'' 5 250000000 87400 ''fp1''
          = Inl DepositAlreadyRegistered
    \<and> mintStBTC v2 1 ''test_tx'' = Inl DepositAlreadyProcessed"
  using register_then_mint_once [where v = "deployed 1 2" and sender = 1
      and btcTxHash = "''test_tx''" and user = 5 and amount = 250000000 and now = 1000
      and unlockTime = 87400 and fp = "''fp1''"]
  by (fastforce simp add: deployed_def)

section \<open>Properties of the deposit relay controller\<close>

subsection \<open>Validation\<close>






subsection \<open>The scenarios on the Vault\<close>












subsection \<open>Retries\<close>








section \<open>Properties of the staking ledger engine\<close>

subsection \<open>Objects as dictionaries, floors of numerals\<close>

lemma floor_rat_numeral:
  "\<lfloor>numeral a / numeral b :: rat\<rfloor> = numeral a div numeral b"
  using floor_divide_of_int_eq [of "numeral a" "numeral b", where ?'a = rat] by simp

lemma map_of_obj_set: "map_of (obj_set obj k v) = (map_of obj)(k \<mapsto> v)"
  by (induction obj k v rule: obj_set.induct) (auto simp add: fun_eq_iff)

lemma obj_get_obj_set: "obj_get (obj_set obj k v) k' = (if k' = k then Some v else obj_get obj k')"
  by (simp add: obj_get_def map_of_obj_set)

lemma set_obj_set: "set (obj_set obj k v) \<subseteq> insert (k, v) (set obj)"
  by (induction obj k v rule: obj_set.induct) auto

lemma obj_get_in_set: "obj_get obj k = Some v \<Longrightarrow> (k, v) \<in> set obj"
  by (simp add: obj_get_def map_of_SomeD)

subsection \<open>What each method leaves alone\<close>

lemma slashLoop_positions:
  "fst (slashLoop fpId rate sev reason t ps acc) =
     map (\<lambda>(k, p). (k, slashSelected fpId rate sev reason t p)) ps"
  by (induction ps arbitrary: acc) (auto simp add: slashSelected_def split_beta)

lemma slashPosition_nonneg:
  assumes "0 \<le> pos_amount p" "rate \<le> 1"
  shows "0 \<le> pos_amount (slashPosition rate sev reason t p)"
proof -
  have "of_int \<lfloor>pos_amount p * rate\<rfloor> \<le> pos_amount p * rate" by simp
  also have "\<dots> \<le> pos_amount p * 1" using assms by (intro mult_left_mono) auto
  finally show ?thesis by (simp add: slashPosition_def Let_def)
qed

lemma executeSlashing_positions:
  "obj_get (finalityProviders s) fpId = Some fp \<Longrightarrow>
   activeStakers (executeSlashing s nowMs draw fpId reason) =
     map (\<lambda>(k, p). (k, slashSelected fpId
            (if draw > 7 / 10 then slashingRate (stakingParams s)
             else slashingRate (stakingParams s) * (1 / 2))
            (if draw > 7 / 10 then Major else Minor) reason (nowMs div 1000) p))
       (activeStakers s)"
  using slashLoop_positions [of fpId _ _ reason "nowMs div 1000" "activeStakers s" 0]
  by (auto simp add: executeSlashing_def Let_def split_beta)

lemma updateNetworkStats_fields [simp]:
  "activeStakers (updateNetworkStats s) = activeStakers s"
  "finalityProviders (updateNetworkStats s) = finalityProviders s"
  "stakingParams (updateNetworkStats s) = stakingParams s"
  "currentEpoch (updateNetworkStats s) = currentEpoch s"
  by (simp_all add: updateNetworkStats_def Let_def split_beta)

lemma updateEpoch_fields [simp]:
  "activeStakers (updateEpoch rnd s) = activeStakers s"
  "finalityProviders (updateEpoch rnd s) = performanceLoop rnd 0 (finalityProviders s)"
  "stakingParams (updateEpoch rnd s) = stakingParams s"
  by (simp_all add: updateEpoch_def updateProviderPerformance_def Let_def)

lemma executeSlashing_params [simp]:
  "stakingParams (executeSlashing s nowMs draw fpId reason) = stakingParams s"
  by (simp add: executeSlashing_def Let_def split_beta split: option.splits)

lemma rewardLoop_amounts:
  "map (\<lambda>(k, p). (k, pos_amount p, pos_status p)) (fst (rewardLoop s nowMs ps fps acc)) =
   map (\<lambda>(k, p). (k, pos_amount p, pos_status p)) ps"
  by (induction ps arbitrary: fps acc)
     (auto simp add: split_beta rewardPosition_def split: option.splits)

lemma distributeStakingRewards_fields [simp]:
  "stakingParams (distributeStakingRewards s nowMs) = stakingParams s"
  "activeStakers (distributeStakingRewards s nowMs) =
     fst (rewardLoop s nowMs (activeStakers s) (finalityProviders s) 0)"
  "finalityProviders (distributeStakingRewards s nowMs) =
     fst (snd (rewardLoop s nowMs (activeStakers s) (finalityProviders s) 0))"
  by (simp_all add: distributeStakingRewards_def split_beta)

lemma engineStep_params [simp]: "stakingParams (engineStep s st) = stakingParams s"
  by (cases st) simp_all

subsection \<open>Keys are preserved\<close>

lemma obj_get_key: "obj_get obj k = Some v \<Longrightarrow> k \<in> fst ` set obj"
  by (auto simp add: obj_get_def dest: map_of_SomeD intro: rev_image_eqI)

lemma map_fst_obj_set: "k \<in> fst ` set obj \<Longrightarrow> map fst (obj_set obj k v) = map fst obj"
  by (induction obj k v rule: obj_set.induct) auto

lemma key_obj_get: "k \<in> set (map fst obj) \<Longrightarrow> \<exists>v. obj_get obj k = Some v \<and> (k, v) \<in> set obj"
  using obj_get_in_set [of obj k] by (cases "obj_get obj k") (auto simp add: obj_get_def map_of_eq_None_iff)

lemma map_fst_performanceLoop: "map fst (performanceLoop rnd i fps) = map fst fps"
  by (induction fps arbitrary: i) auto

lemma map_fst_creditCommission: "map fst (creditCommission fps k r) = map fst fps"
  by (auto simp add: creditCommission_def Let_def map_fst_obj_set obj_get_key split: option.splits)

lemma map_fst_rewardLoop_providers:
  "map fst (fst (snd (rewardLoop s nowMs ps fps acc))) = map fst fps"
  by (induction ps arbitrary: fps acc)
     (auto simp add: split_beta map_fst_creditCommission split: option.splits)

lemma map_fst_rewardLoop_positions:
  "map fst (fst (rewardLoop s nowMs ps fps acc)) = map fst ps"
proof -
  have "map fst (map (\<lambda>(k, p). (k, pos_amount p, pos_status p)) (fst (rewardLoop s nowMs ps fps acc)))
      = map fst (map (\<lambda>(k, p). (k, pos_amount p, pos_status p)) ps)"
    by (simp only: rewardLoop_amounts)
  then show ?thesis by (simp add: split_beta comp_def)
qed

lemma executeSlashing_keys:
  "map fst (finalityProviders (executeSlashing s nowMs draw fpId reason)) = map fst (finalityProviders s)"
  "map fst (activeStakers (executeSlashing s nowMs draw fpId reason)) = map fst (activeStakers s)"
proof -
  show "map fst (finalityProviders (executeSlashing s nowMs draw fpId reason)) = map fst (finalityProviders s)"
    by (auto simp add: executeSlashing_def Let_def split_beta map_fst_obj_set obj_get_key
        split: option.splits)
  show "map fst (activeStakers (executeSlashing s nowMs draw fpId reason)) = map fst (activeStakers s)"
  proof (cases "obj_get (finalityProviders s) fpId")
    case None
    then show ?thesis by (simp add: executeSlashing_def)
  next
    case (Some fp)
    show ?thesis by (simp add: executeSlashing_positions [OF Some] split_beta comp_def)
  qed
qed

lemma engineStep_keys:
  "map fst (finalityProviders (engineStep s st)) = map fst (finalityProviders s)"
  "map fst (activeStakers (engineStep s st)) = map fst (activeStakers s)"
  by (cases st; simp add: executeSlashing_keys map_fst_performanceLoop
      map_fst_rewardLoop_providers map_fst_rewardLoop_positions)+

lemma runEngine_keys:
  "map fst (finalityProviders (runEngine s steps)) = map fst (finalityProviders s)"
  "map fst (activeStakers (runEngine s steps)) = map fst (activeStakers s)"
  unfolding runEngine_def
  by (induction steps arbitrary: s; simp add: engineStep_keys)+

subsection \<open>The seed state and the slashing scenario\<close>

lemma newWatcher_providers:
  "finalityProviders newWatcher =
     [(''fp1'', enhancedProviders ! 0), (''fp2'', enhancedProviders ! 1),
      (''fp3'', enhancedProviders ! 2)]"
  by (simp add: newWatcher_def enhanceFinalityProviders_def enhancedProviders_def
      seedProvider_def)

lemma scenarioD_stakers:
  "map (\<lambda>(k, p). (k, pos_amount p, pos_finalityProvider p, pos_status p)) (activeStakers scenarioD)
     = [(''slashing_test_1'', 100000000, ''fp1'', Active)]"
  by (simp add: scenarioD_def created_def createStakingPosition_def slashingTestTx_def Let_def
      newWatcher_def enhanceFinalityProviders_def enhancedProviders_def seedProvider_def obj_get_def)

lemma scenarioD_fp1:
  "obj_get (finalityProviders scenarioD) ''fp1'' =
     Some ((seedProvider ''fp1'' ''Babylon Finality Provider Alpha'' (5 / 100) 95 99 1
        50000000000000 1000000000)\<lparr>fp_totalDelegated := 100000000, fp_delegatorCount := 1,
          fp_votingPower := 940\<rparr>)"
  by (simp add: scenarioD_def created_def createStakingPosition_def slashingTestTx_def Let_def
      newWatcher_def enhanceFinalityProviders_def enhancedProviders_def seedProvider_def
      obj_get_def calculateFinalityProviderVotingPower_def floor_rat_numeral)


lemma scenarioD_params: "slashingRate (stakingParams scenarioD) = 5 / 100"
  by (simp add: scenarioD_def created_def createStakingPosition_def slashingTestTx_def Let_def
      newWatcher_def enhanceFinalityProviders_def)

lemma scenarioD_position:
  obtains p where "activeStakers scenarioD = [(''slashing_test_1'', p)]"
    "pos_amount p = 100000000" "pos_finalityProvider p = ''fp1''" "pos_status p = Active"
  using scenarioD_stakers by (auto simp add: map_eq_Cons_conv)

lemma scenarioD_activeStakers:
  "activeStakers scenarioD = [(''slashing_test_1'', scenarioPosition)]"
  by (simp add: scenarioD_def created_def createStakingPosition_def slashingTestTx_def Let_def
      newWatcher_def enhanceFinalityProviders_def enhancedProviders_def seedProvider_def
      obj_get_def calculateVotingPower_def floor_rat_numeral scenarioPosition_def)

lemma scenarioD_finalityProviders:
  "finalityProviders scenarioD =
     [(''fp1'', (enhancedProviders ! 0)\<lparr>fp_totalDelegated := 100000000,
         fp_delegatorCount := 1, fp_votingPower := 940\<rparr>),
      (''fp2'', enhancedProviders ! 1), (''fp3'', enhancedProviders ! 2)]"
  by (simp add: scenarioD_def created_def createStakingPosition_def slashingTestTx_def Let_def
      newWatcher_def enhanceFinalityProviders_def enhancedProviders_def seedProvider_def
      obj_get_def calculateFinalityProviderVotingPower_def floor_rat_numeral)



subsection \<open>Slashing an unknown provider\<close>



subsection \<open>Amounts stay non-negative\<close>

lemma amountsNonneg_amounts:
  "amountsNonneg ps \<longleftrightarrow> (\<forall>x \<in> set (map (\<lambda>(k, p). (k, pos_amount p, pos_status p)) ps). 0 \<le> fst (snd x))"
  by (auto simp add: amountsNonneg_def)

lemma engineStep_nonneg:
  assumes "slashingRate (stakingParams s) \<le> 1"
    and "amountsNonneg (activeStakers s)"
  shows "amountsNonneg (activeStakers (engineStep s st))"
proof (cases st)
  case (Slashing nowMs draw fpId reason)
  show ?thesis
  proof (cases "obj_get (finalityProviders s) fpId")
    case None
    then show ?thesis using assms Slashing by (simp add: executeSlashing_def)
  next
    case (Some fp)
    let ?rate = "if draw > 7 / 10 then slashingRate (stakingParams s)
                 else slashingRate (stakingParams s) * (1 / 2)"
    have r: "?rate \<le> 1" using assms(1) by auto
    have "0 \<le> pos_amount (slashSelected fpId ?rate sev reason t p)"
      if "0 \<le> pos_amount p" for p sev t
      using that r slashPosition_nonneg [of p ?rate] by (simp add: slashSelected_def)
    then show ?thesis
      using assms(2) Slashing executeSlashing_positions [OF Some]
      by (auto simp add: amountsNonneg_def)
  qed
next
  case (EpochUpdate rnd)
  then show ?thesis using assms by simp
next
  case (RewardDistribution nowMs)
  then show ?thesis
    using assms(2)
    by (simp add: amountsNonneg_amounts rewardLoop_amounts)
qed

lemma runEngine_nonneg:
  assumes "slashingRate (stakingParams s) \<le> 1"
    and "amountsNonneg (activeStakers s)"
  shows "amountsNonneg (activeStakers (runEngine s steps))"
  using assms unfolding runEngine_def
proof (induction steps arbitrary: s)
  case Nil
  then show ?case by simp
next
  case (Cons st steps)
  have "amountsNonneg (activeStakers (engineStep s st))"
    using Cons.prems by (rule engineStep_nonneg)
  then show ?case using Cons.IH [of "engineStep s st"] Cons.prems by simp
qed

text \<open>
  Claim C2.  When the configured slashing rate is at most 1 and every position's amount is
  non-negative, every position's amount is still non-negative after any finite sequence
  of engine steps, in particular after any sequence of \<^verbatim>\<open>executeSlashing\<close> calls with
  any providers, reasons and severities: a slashing step subtracts
  \<open>\<lfloor>amount * rate\<rfloor>\<close>, which is at most the amount.
\<close>

theorem slashing_keeps_amount_nonneg:
  assumes "slashingRate (stakingParams s) \<le> 1"
    and "\<forall>(k, p) \<in> set (activeStakers s). 0 \<le> pos_amount p"
  shows "\<forall>(k, p) \<in> set (activeStakers (runEngine s steps)). 0 \<le> pos_amount p"
  using runEngine_nonneg [of s steps] assms by (simp add: amountsNonneg_def)

theorem slashing_keeps_amount_nonneg_witness:
  "slashingRate (stakingParams scenarioD) \<le> 1
   \<and> amountOf scenarioD ''slashing_test_1'' = Some 100000000
   \<and> amountNonnegOf (runEngine scenarioD
          [Slashing 1000 (9 / 10) ''fp1'' ''double_sign'',
           Slashing 2000 (1 / 2) ''fp1'' ''unavailability'']) ''slashing_test_1'' = Some True"
proof -
  let ?steps = "[Slashing 1000 (9 / 10) ''fp1'' ''double_sign'',
           Slashing 2000 (1 / 2) ''fp1'' ''unavailability'']"
  have h1: "slashingRate (stakingParams scenarioD) \<le> 1"
    by (simp add: scenarioD_params)
  have h2: "\<forall>(k, p) \<in> set (activeStakers scenarioD). 0 \<le> pos_amount p"
    by (rule scenarioD_position) simp
  have h3: "amountOf scenarioD ''slashing_test_1'' = Some 100000000"
    by (rule scenarioD_position) (simp add: amountOf_def obj_get_def)
  have "''slashing_test_1'' \<in> set (map fst (activeStakers (runEngine scenarioD ?steps)))"
    by (rule scenarioD_position) (simp add: runEngine_keys)
  then obtain p where p: "obj_get (activeStakers (runEngine scenarioD ?steps)) ''slashing_test_1'' = Some p"
    "(''slashing_test_1'', p) \<in> set (activeStakers (runEngine scenarioD ?steps))"
    using key_obj_get by blast
  have "0 \<le> pos_amount p"
    using slashing_keeps_amount_nonneg [OF h1 h2, of ?steps] p(2) by blast
  then show ?thesis using h1 h3 p(1) by (simp add: amountNonnegOf_def)
qed

subsection \<open>Reputation and uptime stay within their bounds\<close>

lemma providerPerformance_bounds:
  "withinBounds fp \<Longrightarrow> withinBounds (providerPerformance r fp)"
  by (auto simp add: withinBounds_def providerPerformance_def Let_def)

lemma allWithinBounds_simps [simp]:
  "allWithinBounds []"
  "allWithinBounds ((k, fp) # fps) \<longleftrightarrow> withinBounds fp \<and> allWithinBounds fps"
  by (simp_all add: allWithinBounds_def)

lemma performanceLoop_bounds:
  "allWithinBounds fps \<Longrightarrow> allWithinBounds (performanceLoop rnd i fps)"
  by (induction fps arbitrary: i) (auto simp add: providerPerformance_bounds)

lemma obj_set_bounds:
  assumes "allWithinBounds fps" "withinBounds fp"
  shows "allWithinBounds (obj_set fps k fp)"
  using assms set_obj_set [of fps k fp] by (auto simp add: allWithinBounds_def)

lemma creditCommission_bounds:
  assumes "allWithinBounds fps"
  shows "allWithinBounds (creditCommission fps k r)"
proof (cases "obj_get fps k")
  case None
  then show ?thesis using assms by (simp add: creditCommission_def)
next
  case (Some fp)
  then have "withinBounds fp"
    using assms obj_get_in_set [OF Some] by (auto simp add: allWithinBounds_def)
  then have "withinBounds (fp\<lparr>fp_commissionEarned :=
      fp_commissionEarned fp + of_int \<lfloor>of_int r * fp_commission fp\<rfloor>\<rparr>)"
    by (simp add: withinBounds_def)
  then show ?thesis
    using Some assms by (simp add: creditCommission_def Let_def obj_set_bounds)
qed

lemma rewardLoop_bounds:
  "allWithinBounds fps \<Longrightarrow> allWithinBounds (fst (snd (rewardLoop s nowMs ps fps acc)))"
  by (induction ps arbitrary: fps acc)
     (auto simp add: split_beta creditCommission_bounds split: option.splits)

lemma executeSlashing_bounds:
  assumes "allWithinBounds (finalityProviders s)"
  shows "allWithinBounds (finalityProviders (executeSlashing s nowMs draw fpId reason))"
proof (cases "obj_get (finalityProviders s) fpId")
  case None
  then show ?thesis using assms by (simp add: executeSlashing_def)
next
  case (Some fp)
  then have "withinBounds fp"
    using assms obj_get_in_set [OF Some] by (auto simp add: allWithinBounds_def)
  then have "withinBounds (fp\<lparr>fp_totalDelegated := d,
      fp_reputation := max 10 (fp_reputation fp - 10), fp_slashingHistory := h\<rparr>)" for d h
    by (auto simp add: withinBounds_def)
  then show ?thesis
    using Some assms by (simp add: executeSlashing_def Let_def split_beta obj_set_bounds)
qed

lemma engineStep_bounds:
  assumes "allWithinBounds (finalityProviders s)"
  shows "allWithinBounds (finalityProviders (engineStep s st))"
proof (cases st)
  case (Slashing nowMs draw fpId reason)
  then show ?thesis using assms by (simp add: executeSlashing_bounds)
next
  case (EpochUpdate rnd)
  then show ?thesis using assms by (simp add: performanceLoop_bounds)
next
  case (RewardDistribution nowMs)
  then show ?thesis using assms by (simp add: rewardLoop_bounds)
qed

lemma runEngine_bounds:
  "allWithinBounds (finalityProviders s) \<Longrightarrow>
   allWithinBounds (finalityProviders (runEngine s steps))"
  unfolding runEngine_def
  by (induction steps arbitrary: s) (simp_all add: engineStep_bounds)

text \<open>
  Claim C8.  If every provider's reputation is within [10, 100] and its uptime within
  [90, 100] (as for the three seed providers), the same holds after any finite sequence of
  epoch updates, slashing executions and reward distributions, whatever the random draws.
\<close>

theorem reputation_uptime_stay_within_bounds:
  assumes "\<forall>(k, fp) \<in> set (finalityProviders s).
             10 \<le> fp_reputation fp \<and> fp_reputation fp \<le> 100 \<and>
             90 \<le> fp_uptime fp \<and> fp_uptime fp \<le> 100"
  shows "\<forall>(k, fp) \<in> set (finalityProviders (runEngine s steps)).
             10 \<le> fp_reputation fp \<and> fp_reputation fp \<le> 100 \<and>
             90 \<le> fp_uptime fp \<and> fp_uptime fp \<le> 100"
  using runEngine_bounds [of s steps] assms
  by (simp add: allWithinBounds_def withinBounds_def)

theorem reputation_uptime_stay_within_bounds_witness:
  "withinBoundsOf newWatcher ''fp1'' = Some True
   \<and> withinBoundsOf newWatcher ''fp2'' = Some True
   \<and> withinBoundsOf newWatcher ''fp3'' = Some True
   \<and> withinBoundsOf (runEngine newWatcher
        [Slashing 1000 (9 / 10) ''fp1'' ''double_sign'', EpochUpdate (\<lambda>i. 0),
         Slashing 2000 (1 / 10) ''fp1'' ''unavailability'']) ''fp1'' = Some True"
proof -
  let ?steps = "[Slashing 1000 (9 / 10) ''fp1'' ''double_sign'', EpochUpdate (\<lambda>i. 0),
         Slashing 2000 (1 / 10) ''fp1'' ''unavailability'']"
  have h: "\<forall>(k, fp) \<in> set (finalityProviders newWatcher).
             10 \<le> fp_reputation fp \<and> fp_reputation fp \<le> 100 \<and>
             90 \<le> fp_uptime fp \<and> fp_uptime fp \<le> 100"
    by (simp add: newWatcher_providers enhancedProviders_def seedProvider_def)
  have init: "withinBoundsOf newWatcher ''fp1'' = Some True"
    "withinBoundsOf newWatcher ''fp2'' = Some True"
    "withinBoundsOf newWatcher ''fp3'' = Some True"
    by (simp_all add: withinBoundsOf_def withinBounds_def obj_get_def newWatcher_providers
        enhancedProviders_def seedProvider_def)
  have "''fp1'' \<in> set (map fst (finalityProviders (runEngine newWatcher ?steps)))"
    by (simp add: runEngine_keys newWatcher_providers)
  then obtain fp where fp: "obj_get (finalityProviders (runEngine newWatcher ?steps)) ''fp1'' = Some fp"
    "(''fp1'', fp) \<in> set (finalityProviders (runEngine newWatcher ?steps))"
    using key_obj_get by blast
  have "withinBounds fp"
    using reputation_uptime_stay_within_bounds [OF h, of ?steps] fp(2)
    by (auto simp add: withinBounds_def)
  then show ?thesis using init fp(1) by (simp add: withinBoundsOf_def)
qed

subsection \<open>Minor slashing\<close>

text \<open>
  Claim C6.  When the severity draw does not exceed 0.7 (minor severity) and the provider
  exists, every active position delegated to it loses \<open>\<lfloor>amount * (base rate / 2)\<rfloor>\<close>,
  every other position keeps its amount, and the provider's reputation becomes
  \<open>max 10 (reputation - 10)\<close>.
\<close>

theorem minor_slashing_halves_rate:
  assumes "draw \<le> 7 / 10" and "obj_get (finalityProviders s) fpId = Some fp"
  shows "map (\<lambda>(k, p). (k, pos_amount p))
           (activeStakers (executeSlashing s nowMs draw fpId reason)) =
         map (\<lambda>(k, p). (k,
             if pos_finalityProvider p = fpId \<and> pos_status p = Active
             then pos_amount p
                    - of_int \<lfloor>pos_amount p * (slashingRate (stakingParams s) * (1 / 2))\<rfloor>
             else pos_amount p))
           (activeStakers s)
       \<and> reputationOf (executeSlashing s nowMs draw fpId reason) fpId
           = Some (max 10 (fp_reputation fp - 10))"
proof -
  have d: "\<not> draw > 7 / 10" using assms(1) by simp
  have "reputationOf (executeSlashing s nowMs draw fpId reason) fpId
           = Some (max 10 (fp_reputation fp - 10))"
    using assms(2)
    by (simp add: reputationOf_def executeSlashing_def Let_def split_beta obj_get_obj_set)
  moreover have "map (\<lambda>(k, p). (k, pos_amount p))
           (activeStakers (executeSlashing s nowMs draw fpId reason)) =
         map (\<lambda>(k, p). (k,
             if pos_finalityProvider p = fpId \<and> pos_status p = Active
             then pos_amount p
                    - of_int \<lfloor>pos_amount p * (slashingRate (stakingParams s) * (1 / 2))\<rfloor>
             else pos_amount p))
           (activeStakers s)"
    using d by (simp add: executeSlashing_positions [OF assms(2)] split_beta
        slashSelected_def slashPosition_def Let_def)
  ultimately show ?thesis by simp
qed

text \<open>
  Scenario D: one active position of 100,000,000 on \<^verbatim>\<open>fp1\<close>, base rate 5%, minor severity:
  the amount becomes 97,500,000 and the reputation goes from 95 to 85.
\<close>

theorem minor_slashing_halves_rate_witness:
  "(1 / 2 :: rat) \<le> 7 / 10
   \<and> reputationOf scenarioD ''fp1'' = Some 95
   \<and> slashingRate (stakingParams scenarioD) = 5 / 100
   \<and> map (\<lambda>(k, p). (k, pos_amount p)) (activeStakers scenarioD)
       = [(''slashing_test_1'', 100000000)]
   \<and> map (\<lambda>(k, p). (k, pos_amount p))
       (activeStakers (executeSlashing scenarioD 1000 (1 / 2) ''fp1'' ''double_sign''))
       = [(''slashing_test_1'', 97500000)]
   \<and> reputationOf (executeSlashing scenarioD 1000 (1 / 2) ''fp1'' ''double_sign'') ''fp1''
       = Some 85"
proof -
  obtain p where p: "activeStakers scenarioD = [(''slashing_test_1'', p)]"
    "pos_amount p = 100000000" "pos_finalityProvider p = ''fp1''" "pos_status p = Active"
    by (rule scenarioD_position)
  show ?thesis
    using minor_slashing_halves_rate [of "1 / 2" scenarioD "''fp1''" _ 1000 "''double_sign''",
        OF _ scenarioD_fp1] p scenarioD_params scenarioD_fp1
    by (simp add: reputationOf_def seedProvider_def)
qed

subsection \<open>Voting power\<close>





subsection \<open>Reward distribution\<close>







subsection \<open>Network statistics\<close>

lemma stakedLoop_sum:
  "stakedLoop ps a n =
     (a + sum_list (map pos_amount (filter (\<lambda>p. pos_status p = Active) (map snd ps))),
      n + length (filter (\<lambda>p. pos_status p = Active) (map snd ps)))"
  by (induction ps a n rule: stakedLoop.induct) simp_all

lemma foldl_plus_sum_list:
  "foldl (\<lambda>sum x. sum + f x) a xs = a + sum_list (map f xs)" for a :: rat
  by (induction xs arbitrary: a) simp_all

lemma updateNetworkStats_recomputed: "statsRecomputed (updateNetworkStats s)"
  by (simp add: statsRecomputed_def updateNetworkStats_def stakedLoop_sum
      foldl_plus_sum_list Let_def filter_map)

lemma updateEpoch_recomputed: "statsRecomputed (updateEpoch rnd s)"
  by (simp add: updateEpoch_def Let_def updateNetworkStats_recomputed)

lemma active_sum_projection:
  "sum_list (map pos_amount (filter (\<lambda>p. pos_status p = Active) (map snd ps))) =
     sum_list (map (\<lambda>x. fst (snd x))
       (filter (\<lambda>x. snd (snd x) = Active) (map (\<lambda>(k, p). (k, pos_amount p, pos_status p)) ps)))"
  "length (filter (\<lambda>p. pos_status p = Active) (map snd ps)) =
     length (filter (\<lambda>x. snd (snd x) = Active) (map (\<lambda>(k, p). (k, pos_amount p, pos_status p)) ps))"
  by (induction ps) (auto simp add: split_beta)

lemma map_obj_set_same:
  "obj_get obj k = Some v0 \<Longrightarrow> f v = f v0 \<Longrightarrow>
     map (\<lambda>x. f (snd x)) (obj_set obj k v) = map (\<lambda>x. f (snd x)) obj"
  by (induction obj k v rule: obj_set.induct) (auto simp add: obj_get_def)

lemma creditCommission_view:
  "map (\<lambda>x. providerStatsView (snd x)) (creditCommission fps k r) =
     map (\<lambda>x. providerStatsView (snd x)) fps"
  by (auto simp add: creditCommission_def Let_def providerStatsView_def
      intro!: map_obj_set_same split: option.splits)

lemma rewardLoop_view:
  "map (\<lambda>x. providerStatsView (snd x)) (fst (snd (rewardLoop s nowMs ps fps acc))) =
     map (\<lambda>x. providerStatsView (snd x)) fps"
  by (induction ps arbitrary: fps acc)
     (auto simp add: split_beta creditCommission_view split: option.splits)

lemma provider_stats_projection:
  "filter fp_isActive (map snd fps) = [] \<longleftrightarrow>
     filter fst (map (\<lambda>x. providerStatsView (snd x)) fps) = []"
  "length (filter fp_isActive (map snd fps)) =
     length (filter fst (map (\<lambda>x. providerStatsView (snd x)) fps))"
  "sum_list (map fp_commission (filter fp_isActive (map snd fps))) =
     sum_list (map (\<lambda>v. fst (snd v)) (filter fst (map (\<lambda>x. providerStatsView (snd x)) fps)))"
  "sum_list (map fp_uptime (filter fp_isActive (map snd fps))) =
     sum_list (map (\<lambda>v. snd (snd v)) (filter fst (map (\<lambda>x. providerStatsView (snd x)) fps)))"
  by (induction fps) (auto simp add: providerStatsView_def)

lemma distributeStakingRewards_stats:
  "networkStats (distributeStakingRewards s nowMs) =
     (networkStats s)\<lparr>ns_totalRewardsDistributed :=
        ns_totalRewardsDistributed (networkStats s)
          + snd (snd (rewardLoop s nowMs (activeStakers s) (finalityProviders s) 0))\<rparr>"
  by (simp add: distributeStakingRewards_def split_beta)

lemma distributeStakingRewards_recomputed:
  assumes "statsRecomputed s"
  shows "statsRecomputed (distributeStakingRewards s nowMs)"
proof -
  have "statsRecomputed (distributeStakingRewards s nowMs) = statsRecomputed s"
    unfolding statsRecomputed_def Let_def
    apply (simp only: distributeStakingRewards_fields distributeStakingRewards_stats
        active_sum_projection provider_stats_projection rewardLoop_amounts rewardLoop_view)
    apply simp
    done
  then show ?thesis using assms by simp
qed

text \<open>
  Claim C9, as amended.  \<^verbatim>\<open>updateNetworkStats\<close> sets the statistics to the values
  recomputed from the live collections; an epoch update ends with it, so after an epoch
  update the statistics equal the recomputed values; a reward distribution changes neither
  these statistics nor the data they are computed from, so it preserves the equality when
  it held before.
\<close>

theorem stats_recomputed_by_update_steps:
  "statsRecomputed (updateNetworkStats s)
   \<and> statsRecomputed (updateEpoch rnd s)
   \<and> (statsRecomputed s \<longrightarrow> statsRecomputed (distributeStakingRewards s nowMs))"
  by (simp add: updateNetworkStats_recomputed updateEpoch_recomputed
      distributeStakingRewards_recomputed)

theorem stats_recomputed_by_update_steps_witness:
  "statsRecomputed (updateNetworkStats scenarioD)
   \<and> ns_totalStaked (networkStats (updateNetworkStats scenarioD)) = 100000000
   \<and> ns_totalDelegators (networkStats (updateNetworkStats scenarioD)) = 1
   \<and> ns_activeFinality (networkStats (updateNetworkStats scenarioD)) = 3
   \<and> ns_averageCommission (networkStats (updateNetworkStats scenarioD)) = 16 / 300
   \<and> ns_networkUptime (networkStats (updateNetworkStats scenarioD)) = 97
   \<and> statsRecomputed (updateEpoch (\<lambda>i. 1 / 2) scenarioD)
   \<and> statsRecomputed (distributeStakingRewards (updateNetworkStats scenarioD) 3600000)"
proof -
  note a = stats_recomputed_by_update_steps [where s = scenarioD and rnd = "\<lambda>i. 1 / 2"]
  note b = stats_recomputed_by_update_steps [where s = "updateNetworkStats scenarioD"
      and nowMs = 3600000]
  have c: "statsRecomputed (updateNetworkStats scenarioD)" using a by simp
  have d: "statsRecomputed (distributeStakingRewards (updateNetworkStats scenarioD) 3600000)"
    using b c by simp
  have e: "ns_totalStaked (networkStats (updateNetworkStats scenarioD)) = 100000000
   \<and> ns_totalDelegators (networkStats (updateNetworkStats scenarioD)) = 1
   \<and> ns_activeFinality (networkStats (updateNetworkStats scenarioD)) = 3
   \<and> ns_averageCommission (networkStats (updateNetworkStats scenarioD)) = 16 / 300
   \<and> ns_networkUptime (networkStats (updateNetworkStats scenarioD)) = 97"
    using c
    by (simp add: statsRecomputed_def Let_def scenarioD_activeStakers
        scenarioD_finalityProviders scenarioPosition_def enhancedProviders_def seedProvider_def)
  show ?thesis using a c d e by simp
qed

text \<open>
  Claim C9 as stated fails.  Starting from recomputed statistics, a slashing leaves
  \<^verbatim>\<open>totalStaked\<close> at 100,000,000 while the only active position now holds 97,500,000;
  and creating a position through \<^verbatim>\<open>createStakingPosition\<close> leaves the statistics of
  the empty ledger in place.
\<close>

theorem stats_stale_counterexample:
  "statsRecomputed (updateNetworkStats scenarioD)
   \<and> \<not> statsRecomputed
        (executeSlashing (updateNetworkStats scenarioD) 1000 (1 / 2) ''fp1'' ''double_sign'')
   \<and> ns_totalStaked (networkStats
        (executeSlashing (updateNetworkStats scenarioD) 1000 (1 / 2) ''fp1'' ''double_sign''))
       = 100000000
   \<and> amountOf
        (executeSlashing (updateNetworkStats scenarioD) 1000 (1 / 2) ''fp1'' ''double_sign'')
        ''slashing_test_1'' = Some 97500000
   \<and> statsRecomputed (updateNetworkStats newWatcher)
   \<and> \<not> statsRecomputed (created (updateNetworkStats newWatcher) 0 slashingTestTx ''fp1'')"
  by code_simp

end
